theory Spec2Isabelle
  imports Main "HOL-Library.Sublist" "HOL-Library.Char_ord" "HOL-Library.List_Lexorder"
begin

section \<open>JavaScript strings\<close>

text \<open>
  A JavaScript string is a sequence of UTF-16 code units. The model keeps the code units
  below 256 (the Latin-1 range), one \<^typ>\<open>char\<close> each, so that every \<^typ>\<open>string\<close> of the model
  is a string the program can read. White space is what \<^verbatim>\<open>trim\<close> and the regular expression
  class \<^verbatim>\<open>\s\<close> accept in that range: TAB, LF, VT, FF, CR, SPACE and NBSP.
\<close>

definition isWhiteSpace :: "char \<Rightarrow> bool" where
  "isWhiteSpace c \<longleftrightarrow>
     c = CHR 0x09 \<or> c = CHR 0x0A \<or> c = CHR 0x0B \<or> c = CHR 0x0C \<or> c = CHR 0x0D \<or>
     c = CHR 0x20 \<or> c = CHR 0xA0"

text \<open>\<^verbatim>\<open>String.prototype.toLowerCase\<close> on Latin-1: A-Z and the accented capitals
  U+00C0..U+00DE (without the multiplication sign U+00D7) move up by 32.\<close>

definition toLowerCaseChar :: "char \<Rightarrow> char" where
  "toLowerCaseChar c =
     (let n = (of_char c :: nat)
      in if (65 \<le> n \<and> n \<le> 90) \<or> (192 \<le> n \<and> n \<le> 222 \<and> n \<noteq> 215)
         then char_of (n + 32) else c)"

definition toLowerCase :: "string \<Rightarrow> string" where
  "toLowerCase s = map toLowerCaseChar s"

definition trimStart :: "string \<Rightarrow> string" where
  "trimStart s = dropWhile isWhiteSpace s"

definition trimEnd :: "string \<Rightarrow> string" where
  "trimEnd s = rev (dropWhile isWhiteSpace (rev s))"

definition trim :: "string \<Rightarrow> string" where
  "trim s = trimEnd (trimStart s)"

definition startsWith :: "string \<Rightarrow> string \<Rightarrow> bool" where
  "startsWith s p \<longleftrightarrow> prefix p s"

definition endsWith :: "string \<Rightarrow> string \<Rightarrow> bool" where
  "endsWith s p \<longleftrightarrow> suffix p s"

definition includes_str :: "string \<Rightarrow> string \<Rightarrow> bool" where
  "includes_str s p \<longleftrightarrow> sublist p s"

text \<open>\<^verbatim>\<open>s.indexOf(p, pos)\<close>: the least index at or after \<open>pos\<close> where \<open>p\<close> occurs in \<open>s\<close>,
  or \<open>-1\<close>. The result is an \<^typ>\<open>int\<close>, as the source computes with the \<open>-1\<close>.\<close>

fun indexOfAux :: "string \<Rightarrow> string \<Rightarrow> nat \<Rightarrow> int" where
  "indexOfAux p [] i = (if p = [] then int i else -1)"
| "indexOfAux p (c # cs) i = (if prefix p (c # cs) then int i else indexOfAux p cs (Suc i))"

definition indexOf :: "string \<Rightarrow> string \<Rightarrow> int \<Rightarrow> int" where
  "indexOf s p pos =
     (let k = nat (max 0 (min pos (int (length s)))) in indexOfAux p (drop k s) k)"

text \<open>\<^verbatim>\<open>s.substring(a, b)\<close> clamps both indices to the string and swaps them when \<open>a > b\<close>;
  \<^verbatim>\<open>s.substring(a)\<close> runs to the end.\<close>

definition substring :: "string \<Rightarrow> int \<Rightarrow> int \<Rightarrow> string" where
  "substring s a b =
     (let n = int (length s);
          a' = max 0 (min a n);
          b' = max 0 (min b n);
          lo = min a' b';
          hi = max a' b'
      in take (nat (hi - lo)) (drop (nat lo) s))"

definition substringFrom :: "string \<Rightarrow> int \<Rightarrow> string" where
  "substringFrom s a = drop (nat (max 0 a)) s"

text \<open>\<^verbatim>\<open>s.split(sep)\<close> for a one-character separator: never the empty array.\<close>

fun split_on :: "char \<Rightarrow> string \<Rightarrow> string list" where
  "split_on sep [] = [[]]"
| "split_on sep (c # cs) =
     (if c = sep then [] # split_on sep cs
      else (case split_on sep cs of [] \<Rightarrow> [[c]] | x # xs \<Rightarrow> (c # x) # xs))"

text \<open>\<^verbatim>\<open>xs.join(sep)\<close>.\<close>

fun join :: "string \<Rightarrow> string list \<Rightarrow> string" where
  "join sep [] = []"
| "join sep [x] = x"
| "join sep (x # y # ys) = x @ sep @ join sep (y # ys)"

datatype exn = RangeError | ENOENT | EISDIR | ENOTDIR

text \<open>\<^verbatim>\<open>s.repeat(n)\<close> throws a RangeError for a negative count.\<close>

definition repeat_str :: "string \<Rightarrow> int \<Rightarrow> exn + string" where
  "repeat_str s n = (if n < 0 then Inl RangeError else Inr (concat (replicate (nat n) s)))"

section \<open>Path utilities\<close>

function stripTrailingSlashes :: "string \<Rightarrow> string" where
  "stripTrailingSlashes path =
     (if endsWith path ''/''
      then stripTrailingSlashes (substring path 0 (int (length path) - 1))
      else path)"
  by pat_completeness auto
termination
proof (relation "measure length")
  show "wf (measure length)" by simp
next
  fix path :: string
  assume "endsWith path ''/''"
  then have "path \<noteq> []" by (auto simp: endsWith_def)
  then show "(substring path 0 (int (length path) - 1), path) \<in> measure length"
    by (cases path) (auto simp: substring_def Let_def)
qed

definition purgePath :: "string \<Rightarrow> string" where
  "purgePath path =
     stripTrailingSlashes (map (\<lambda>c. if c = CHR 0x5C then CHR ''/'' else c) path)"

definition isFileOfType :: "string \<Rightarrow> string list \<Rightarrow> bool" where
  "isFileOfType file types =
     (let f = toLowerCase file
      in list_ex (\<lambda>type. endsWith f (if startsWith type ''.'' then type else ''.'' @ type)) types)"

definition compareFileOrderString :: "string \<Rightarrow> string \<Rightarrow> int" where
  "compareFileOrderString a b =
     (let aa = toLowerCase a; bb = toLowerCase b
      in if aa > bb then 1 else if aa = bb then 0 else -1)"

fun compareFileOrderArray :: "string list \<Rightarrow> string list \<Rightarrow> int" where
  "compareFileOrderArray (a # as) (b # bs) =
     (let cmp = compareFileOrderString a b
      in if cmp \<noteq> 0 then cmp else compareFileOrderArray as bs)"
| "compareFileOrderArray aParts bParts = int (length aParts) - int (length bParts)"

definition compareFileOrder :: "string \<Rightarrow> string \<Rightarrow> int" where
  "compareFileOrder a b = compareFileOrderArray (split_on CHR ''/'' a) (split_on CHR ''/'' b)"

section \<open>Regular expressions\<close>

text \<open>
  A backtracking matcher for the patterns the source uses: a sequence of items, each one
  character of a class, a greedy star of a class, or the border of a capture group. The
  match is tried at index 0 only (both patterns start with \<^verbatim>\<open>^\<close>). The result lists the
  positions of the group borders, last first.
\<close>

datatype regexItem = One "char \<Rightarrow> bool" | Star "char \<Rightarrow> bool" | Border

function matchItems :: "regexItem list \<Rightarrow> string \<Rightarrow> nat \<Rightarrow> nat list \<Rightarrow> nat list option" where
  "matchItems [] s pos borders = Some borders"
| "matchItems (Border # items) s pos borders = matchItems items s pos (pos # borders)"
| "matchItems (One cls # items) [] pos borders = None"
| "matchItems (One cls # items) (c # cs) pos borders =
     (if cls c then matchItems items cs (Suc pos) borders else None)"
| "matchItems (Star cls # items) [] pos borders = matchItems items [] pos borders"
| "matchItems (Star cls # items) (c # cs) pos borders =
     (if cls c then
        (case matchItems (Star cls # items) cs (Suc pos) borders of
           Some r \<Rightarrow> Some r
         | None \<Rightarrow> matchItems items (c # cs) pos borders)
      else matchItems items (c # cs) pos borders)"
  by pat_completeness auto
termination
  by (relation "measure (\<lambda>(items, s, pos, borders). length items + length s)") auto

text \<open>A letter of the pattern under the flag \<^verbatim>\<open>i\<close>: itself or its capital.\<close>

definition letter :: "char \<Rightarrow> char \<Rightarrow> bool" where
  "letter x c \<longleftrightarrow> c = x \<or> (of_char c :: nat) + 32 = of_char x"

definition isQuote :: "char \<Rightarrow> bool" where
  "isQuote c \<longleftrightarrow> c = CHR 0x27 \<or> c = CHR 0x22"

text \<open>\<^verbatim>\<open>.\<close> takes every character but a line terminator.\<close>

definition isDot :: "char \<Rightarrow> bool" where
  "isDot c \<longleftrightarrow> c \<noteq> CHR 0x0A \<and> c \<noteq> CHR 0x0D"

section \<open>Statement text utilities\<close>

definition stringIncludesAny :: "string \<Rightarrow> string list \<Rightarrow> bool" where
  "stringIncludesAny string substrings =
     fold (\<lambda>substring incl. if \<not> incl then includes_str string substring else incl)
       substrings False"

definition getFirstCodeLine :: "string \<Rightarrow> string" where
  "getFirstCodeLine code =
     (let firstLine = indexOf code '';'' 0
      in trim (if firstLine \<ge> 0 then substring code 0 firstLine else code))"

text \<open>\<^verbatim>\<open>/^\s*import\s*{/i\<close>\<close>

definition regexStartsWithImport :: "regexItem list" where
  "regexStartsWithImport =
     [Star isWhiteSpace,
      One (letter CHR ''i''), One (letter CHR ''m''), One (letter CHR ''p''),
      One (letter CHR ''o''), One (letter CHR ''r''), One (letter CHR ''t''),
      Star isWhiteSpace, One (\<lambda>c. c = CHR ''{'')]"

definition regex_test :: "regexItem list \<Rightarrow> string \<Rightarrow> bool" where
  "regex_test regex s \<longleftrightarrow> matchItems regex s 0 [] \<noteq> None"

definition getFirstImportStatement :: "string \<Rightarrow> string" where
  "getFirstImportStatement code =
     (if \<not> regex_test regexStartsWithImport code then []
      else substring code 0 (indexOf code '';'' 0 + 1))"

definition purgeOutputName :: "string option \<Rightarrow> string option" where
  "purgeOutputName name' =
     (case name' of
        None \<Rightarrow> None
      | Some name0 \<Rightarrow>
          (let name1 = purgePath name0;
               name2 = (if \<not> endsWith name1 ''.js'' then name1 @ ''.js'' else name1);
               parts = split_on CHR ''/'' name2
           in Some (parts ! (length parts - 1))))"

text \<open>The import lines the run recognises as its own: \<^verbatim>\<open>./<name>';\<close> for the output name
  (when there is one) and for every previous output name. A previous name is a string
  (the options schema says so), so its purged name is never null.\<close>

definition possibleImportLines :: "string option \<Rightarrow> string list \<Rightarrow> string list" where
  "possibleImportLines outputName previousOutputNames =
     map (\<lambda>path. ''./'' @ path @ [CHR 0x27, CHR '';''])
       ((case outputName of None \<Rightarrow> [] | Some n \<Rightarrow> [n]) @ previousOutputNames)"

definition containsOurImportStatement :: "string list \<Rightarrow> string \<Rightarrow> bool" where
  "containsOurImportStatement lines code = stringIncludesAny code lines"

section \<open>The purge loop\<close>

text \<open>One round of the \<^verbatim>\<open>while(changed)\<close> loop of \<^verbatim>\<open>purgeImportedFieldsCode\<close>:
  \<open>Some code'\<close> when a rule fired (\<^verbatim>\<open>changed = true; continue\<close>) and the loop goes on with
  \<open>code'\<close>, \<open>None\<close> when the round ends with \<^verbatim>\<open>changed\<close> still false.\<close>

definition purgeRound :: "string list \<Rightarrow> string \<Rightarrow> string option" where
  "purgeRound lines code =
     (let newCode = trimStart code;
          firstImportStatement = getFirstImportStatement newCode
      in if containsOurImportStatement lines firstImportStatement then
           (let importStatementEnd =
                  indexOf newCode [CHR 0x0A] (int (length firstImportStatement))
            in Some (if importStatementEnd < 0 then []
                     else substringFrom newCode (importStatementEnd + 1)))
         else if startsWith newCode ''<<<<<<< HEAD'' then
           (let headStartA = indexOf newCode [CHR 0x0A] 0 + 1
            in if headStartA \<ge> 1 then
                 (let headEndA = indexOf newCode ''======='' headStartA
                  in if headEndA \<ge> 0 then
                       (let headA = trim (substring newCode headStartA headEndA);
                            headStartB = indexOf newCode [CHR 0x0A] headEndA + 1
                        in if headStartB \<ge> 1 then
                             (let headEndB = indexOf newCode ''>>>>>>>'' headStartB
                              in if headEndB \<ge> 0 then
                                   (let headB = trim (substring newCode headStartB headEndB)
                                    in if containsOurImportStatement lines headA \<and>
                                          containsOurImportStatement lines headB
                                       then
                                         (let headEnd = indexOf newCode [CHR 0x0A] headEndB + 1
                                          in Some (substringFrom newCode headEnd))
                                       else None)
                                 else None)
                           else None)
                     else None)
               else None)
         else None)"

text \<open>The loop itself. It has no bound in the source, so not returning is the value
  \<open>None\<close>.\<close>

partial_function (option) purgeImportedFieldsCode :: "string list \<Rightarrow> string \<Rightarrow> string option"
  where
  "purgeImportedFieldsCode lines code =
     (case purgeRound lines code of
        None \<Rightarrow> Some code
      | Some code' \<Rightarrow> purgeImportedFieldsCode lines code')"

declare purgeImportedFieldsCode.simps [code]

section \<open>The declaration extractor\<close>

text \<open>
  The slice of the Babel syntax tree that \<^verbatim>\<open>getExportedFields\<close> reads. A binding
  target (\<^verbatim>\<open>VariableDeclarator.id\<close>, an array element, a property value) is an
  identifier or a pattern; only an \<^verbatim>\<open>Identifier\<close> has a \<^verbatim>\<open>name\<close>. An array pattern may
  have holes (\<^verbatim>\<open>null\<close> elements); a member of an object pattern is a property with a
  \<^verbatim>\<open>value\<close> or a rest element, which has none.
\<close>

datatype pattern =
    Identifier string
  | ArrayPattern "pattern option list"
  | ObjectPattern "objectMember list"
  | AssignmentPattern pattern
  | RestElement pattern
and objectMember =
    ObjectProperty string pattern
  | RestMember pattern

text \<open>The \<^verbatim>\<open>exported\<close> node of an export specifier: an identifier, or a string
  literal (\<^verbatim>\<open>export {a as "b c"}\<close>), which has no \<^verbatim>\<open>name\<close>.\<close>

datatype exportedNode = ExportedIdentifier string | ExportedStringLiteral string

datatype declarationNode =
    NoDeclaration
  | VariableDeclaration "pattern list"
  | FunctionDeclaration string
  | ClassDeclaration string

datatype statement =
    ExportNamedDeclaration "exportedNode list" declarationNode
  | OtherStatement

text \<open>\<^verbatim>\<open>node?.name\<close>: \<open>None\<close> is \<^verbatim>\<open>undefined\<close>.\<close>

fun pattern_name :: "pattern \<Rightarrow> string option" where
  "pattern_name (Identifier n) = Some n"
| "pattern_name _ = None"

fun exported_name :: "exportedNode \<Rightarrow> string option" where
  "exported_name (ExportedIdentifier n) = Some n"
| "exported_name (ExportedStringLiteral _) = None"

text \<open>\<^verbatim>\<open>exportNode.declaration?.declarations\<close>: the declarators of a variable declaration,
  each given by its \<^verbatim>\<open>id\<close>; \<open>None\<close> for every other declaration.\<close>

fun declarations_of :: "declarationNode \<Rightarrow> pattern list option" where
  "declarations_of (VariableDeclaration ids) = Some ids"
| "declarations_of _ = None"

fun pattern_elements :: "pattern \<Rightarrow> pattern option list option" where
  "pattern_elements (ArrayPattern elems) = Some elems"
| "pattern_elements _ = None"

fun pattern_properties :: "pattern \<Rightarrow> objectMember list option" where
  "pattern_properties (ObjectPattern props) = Some props"
| "pattern_properties _ = None"

fun member_value_name :: "objectMember \<Rightarrow> string option" where
  "member_value_name (ObjectProperty key v) = pattern_name v"
| "member_value_name (RestMember _) = None"

text \<open>The body of the \<^verbatim>\<open>map\<close> over the export nodes: the four lists, concatenated, with
  \<^verbatim>\<open>undefined\<close> entries still in them.\<close>

fun exportNodeNames :: "statement \<Rightarrow> string option list" where
  "exportNodeNames (ExportNamedDeclaration specs decl) =
     (let specifiers = map exported_name specs;
          declarations =
            (case declarations_of decl of None \<Rightarrow> [] | Some ds \<Rightarrow> map pattern_name ds);
          declarationsArray =
            (case declarations_of decl of
               None \<Rightarrow> []
             | Some ds \<Rightarrow>
                 concat (map (\<lambda>d. case pattern_elements d of
                                      None \<Rightarrow> []
                                    | Some elems \<Rightarrow>
                                        map (\<lambda>elem. case elem of None \<Rightarrow> None
                                                     | Some e \<Rightarrow> pattern_name e) elems) ds));
          declarationsObject =
            (case declarations_of decl of
               None \<Rightarrow> []
             | Some ds \<Rightarrow>
                 concat (map (\<lambda>d. case pattern_properties d of
                                      None \<Rightarrow> []
                                    | Some props \<Rightarrow> map member_value_name props) ds))
      in specifiers @ declarations @ declarationsArray @ declarationsObject)"
| "exportNodeNames OtherStatement = []"

fun isExportNamedDeclaration :: "statement \<Rightarrow> bool" where
  "isExportNamedDeclaration (ExportNamedDeclaration _ _) = True"
| "isExportNamedDeclaration OtherStatement = False"

text \<open>The pipeline after the parse: keep the named exports, map, flatten, drop
  \<^verbatim>\<open>undefined\<close>. Every entry is a string or \<^verbatim>\<open>undefined\<close>, so the test for empty arrays
  in the last filter never applies.\<close>

definition exportedNames :: "statement list \<Rightarrow> string list" where
  "exportedNames body =
     map the (filter (\<lambda>x. x \<noteq> None)
       (concat (map exportNodeNames (filter isExportNamedDeclaration body))))"

text \<open>What reaches the console: a warning with the path it is about, the message of a
  parse error, an exception of the file system.\<close>

datatype logEntry = ConsoleWarn string | ConsoleError string | ConsoleException exn

section \<open>Plugin options\<close>

text \<open>What a custom handler returns: \<^verbatim>\<open>{code, exports}\<close>, each possibly missing.\<close>

record customResult =
  result_code :: "string option"
  result_exports :: "string list option"

text \<open>
  The options after schema validation. \<open>opt_babel\<close> is \<^verbatim>\<open>babel.transformSync\<close> under the
  configured Babel options: the program body of the syntax tree, or the message of the
  error it throws. The filter is called with the path (twice); the custom handler with
  the path, the index of the path in the sorted file list and that list. Both are taken
  to return without throwing and without touching the files.
\<close>

record pluginOptions =
  opt_import :: "string list"
  opt_modify :: "string list"
  opt_filter :: "(string \<Rightarrow> bool) option"
  opt_outputName :: "string option"
  opt_previousOutputNames :: "string list"
  opt_babel :: "string \<Rightarrow> string + statement list"
  opt_fileExtensionsJs :: "string list"
  opt_fileExtensionsOther :: "string list"
  opt_fileExtensionsCustom :: "(string \<Rightarrow> nat \<Rightarrow> string list \<Rightarrow> customResult option) option"

text \<open>The result is the identifier list and what was logged; \<open>None\<close> when the purge
  loop does not return.\<close>

definition getExportedFields ::
  "pluginOptions \<Rightarrow> string list \<Rightarrow> string \<Rightarrow> bool \<Rightarrow> (string list \<times> logEntry list) option" where
  "getExportedFields opts lines code codeIsPurged =
     (case (if codeIsPurged then Some code else purgeImportedFieldsCode lines code) of
        None \<Rightarrow> None
      | Some source \<Rightarrow>
          (case opt_babel opts source of
             Inl e \<Rightarrow> Some ([], [ConsoleError e])
           | Inr body \<Rightarrow> Some (exportedNames body, [])))"

section \<open>The export set\<close>

text \<open>
  \<^verbatim>\<open>exportedFields\<close> is a plain object whose values are all \<^verbatim>\<open>true\<close>: the model keeps its
  own keys in creation order. Assigning to the key \<^verbatim>\<open>__proto__\<close> calls the setter
  inherited from \<^verbatim>\<open>Object.prototype\<close>, which ignores the value \<^verbatim>\<open>true\<close> and creates no
  key. \<^verbatim>\<open>Object.keys\<close> lists the array indices first (canonical decimal numerals up to
  \<open>2^32 - 2\<close>), in ascending order, then the other keys in creation order.
\<close>

type_synonym jsobj = "string list"

definition isDigit :: "char \<Rightarrow> bool" where
  "isDigit c \<longleftrightarrow> 48 \<le> (of_char c :: nat) \<and> (of_char c :: nat) \<le> 57"

definition decimalValue :: "string \<Rightarrow> int" where
  "decimalValue s = foldl (\<lambda>n c. 10 * n + (of_char c - 48)) 0 s"

definition isArrayIndex :: "string \<Rightarrow> bool" where
  "isArrayIndex s \<longleftrightarrow>
     s \<noteq> [] \<and> list_all isDigit s \<and> (s = ''0'' \<or> hd s \<noteq> CHR ''0'') \<and>
     length s \<le> 10 \<and> decimalValue s \<le> 4294967294"

definition obj_set :: "jsobj \<Rightarrow> string \<Rightarrow> jsobj" where
  "obj_set obj key =
     (if key = ''__proto__'' then obj else if key \<in> set obj then obj else obj @ [key])"

definition object_keys :: "jsobj \<Rightarrow> string list" where
  "object_keys obj =
     sort_key decimalValue (filter isArrayIndex obj) @ filter (\<lambda>k. \<not> isArrayIndex k) obj"

section \<open>Files\<close>

text \<open>
  The file tree, seen from the working directory, which is also the root: a path is
  walked segment by segment, \<^verbatim>\<open>.\<close> and empty segments stay, \<^verbatim>\<open>..\<close> goes up (and stays
  at the root), and every step needs a directory to step from. There are no links and
  no permissions. The entries of a directory are in the order \<^verbatim>\<open>readdirSync\<close> lists them,
  with distinct names that are proper file names.
\<close>

datatype fsnode = File string | Dir "(string \<times> fsnode) list"

fun lookupNode :: "fsnode \<Rightarrow> string list \<Rightarrow> fsnode option" where
  "lookupNode n [] = Some n"
| "lookupNode (File _) (x # xs) = None"
| "lookupNode (Dir entries) (x # xs) =
     (case map_of entries x of None \<Rightarrow> None | Some n \<Rightarrow> lookupNode n xs)"

text \<open>The names from the root to where the segments lead, innermost first.\<close>

fun walkSegments :: "fsnode \<Rightarrow> string list \<Rightarrow> string list \<Rightarrow> string list option" where
  "walkSegments root here [] = Some here"
| "walkSegments root here (seg # segs) =
     (case lookupNode root (rev here) of
        Some (Dir _) \<Rightarrow>
          (if seg = [] \<or> seg = ''.'' then walkSegments root here segs
           else if seg = ''..'' then walkSegments root (tl here) segs
           else walkSegments root (seg # here) segs)
      | _ \<Rightarrow> None)"

definition resolvePath :: "fsnode \<Rightarrow> string \<Rightarrow> string list option" where
  "resolvePath root path =
     (if path = [] then None
      else map_option rev (walkSegments root [] (split_on CHR ''/'' path)))"

definition statSync :: "fsnode \<Rightarrow> string \<Rightarrow> exn + fsnode" where
  "statSync root path =
     (case resolvePath root path of
        None \<Rightarrow> Inl ENOENT
      | Some names \<Rightarrow> (case lookupNode root names of None \<Rightarrow> Inl ENOENT | Some n \<Rightarrow> Inr n))"

definition existsSync :: "fsnode \<Rightarrow> string \<Rightarrow> bool" where
  "existsSync root path = (case statSync root path of Inl _ \<Rightarrow> False | Inr _ \<Rightarrow> True)"

definition readFileSync :: "fsnode \<Rightarrow> string \<Rightarrow> exn + string" where
  "readFileSync root path =
     (case statSync root path of
        Inl e \<Rightarrow> Inl e
      | Inr (Dir _) \<Rightarrow> Inl EISDIR
      | Inr (File content) \<Rightarrow> Inr content)"

text \<open>Put a file at the named place: replace the file there, or add an entry to the
  directory that is to hold it; fail on a directory in its place.\<close>

fun putFile :: "fsnode \<Rightarrow> string list \<Rightarrow> string \<Rightarrow> exn + fsnode" where
  "putFile (File _) [] data = Inr (File data)"
| "putFile (Dir _) [] data = Inl EISDIR"
| "putFile (File _) (x # xs) data = Inl ENOTDIR"
| "putFile (Dir entries) (x # xs) data =
     (case map_of entries x of
        None \<Rightarrow> (if xs = [] then Inr (Dir (entries @ [(x, File data)])) else Inl ENOENT)
      | Some n \<Rightarrow>
          (case putFile n xs data of
             Inl e \<Rightarrow> Inl e
           | Inr n' \<Rightarrow> Inr (Dir (map (\<lambda>(k, v). if k = x then (k, n') else (k, v)) entries))))"

definition fs_writeFile :: "fsnode \<Rightarrow> string \<Rightarrow> string \<Rightarrow> exn + fsnode" where
  "fs_writeFile root path data =
     (case resolvePath root path of
        None \<Rightarrow> Inl ENOENT
      | Some names \<Rightarrow> putFile root names data)"

text \<open>\<^verbatim>\<open>getAllFiles\<close>, from the node the path leads to: the entry \<open>file\<close> of a directory
  just listed is what \<^verbatim>\<open>path + '/' + file\<close> leads to, so the calls for the entries go by
  the nodes. \<open>allFilesList\<close> is the array all the calls push to.\<close>

fun getAllFilesNode :: "fsnode \<Rightarrow> string \<Rightarrow> string list \<Rightarrow> string list"
  and getAllFilesEntries :: "(string \<times> fsnode) list \<Rightarrow> string \<Rightarrow> string list \<Rightarrow> string list" where
  "getAllFilesNode (File _) path allFilesList = allFilesList @ [path]"
| "getAllFilesNode (Dir files) path allFilesList = getAllFilesEntries files path allFilesList"
| "getAllFilesEntries [] path allFilesList = allFilesList"
| "getAllFilesEntries ((file, node) # files) path allFilesList =
     (let allFilesList' = getAllFilesNode node (path @ ''/'' @ file) allFilesList
      in getAllFilesEntries files path allFilesList')"

definition getAllFiles :: "fsnode \<Rightarrow> string \<Rightarrow> string list \<times> logEntry list" where
  "getAllFiles root path =
     (if \<not> existsSync root path then ([], [ConsoleWarn path])
      else (case statSync root path of
              Inl e \<Rightarrow> ([], [ConsoleException e])
            | Inr n \<Rightarrow> (getAllFilesNode n path [], [])))"

text \<open>\<^verbatim>\<open>Array.prototype.sort\<close> with a comparison function: a stable sort.\<close>

fun insertSorted :: "('a \<Rightarrow> 'a \<Rightarrow> int) \<Rightarrow> 'a \<Rightarrow> 'a list \<Rightarrow> 'a list" where
  "insertSorted cmp x [] = [x]"
| "insertSorted cmp x (y # ys) =
     (if cmp x y \<le> 0 then x # y # ys else y # insertSorted cmp x ys)"

definition sort_by :: "('a \<Rightarrow> 'a \<Rightarrow> int) \<Rightarrow> 'a list \<Rightarrow> 'a list" where
  "sort_by cmp xs = foldr (insertSorted cmp) xs []"

section \<open>The state of a run\<close>

text \<open>The files, the calls of \<^verbatim>\<open>fs.writeFileSync\<close> so far (path and content), the
  console, and the two variables the run accumulates.\<close>

record state =
  fs :: fsnode
  writes :: "(string \<times> string) list"
  console :: "logEntry list"
  importsCode :: string
  exportedFields :: jsobj

text \<open>How a step ends: normally, or with an exception thrown in the state reached.\<close>

datatype completion = Normal state | Thrown exn state

definition writeFileSync :: "string \<Rightarrow> string \<Rightarrow> state \<Rightarrow> completion" where
  "writeFileSync file data s =
     (let s' = s\<lparr>writes := writes s @ [(file, data)]\<rparr>
      in case fs_writeFile (fs s) file data of
           Inl e \<Rightarrow> Thrown e s'
         | Inr root' \<Rightarrow> Normal (s'\<lparr>fs := root'\<rparr>))"

section \<open>The idempotent writer\<close>

text \<open>\<open>oldContent\<close> is \<open>None\<close> for \<^verbatim>\<open>null\<close>, the default of the parameter.\<close>

definition setFileContentIfDifferent ::
  "string \<Rightarrow> string \<Rightarrow> string option \<Rightarrow> state \<Rightarrow> completion" where
  "setFileContentIfDifferent file newContent oldContent s =
     (let oldContent' =
            (case oldContent of
               None \<Rightarrow> (case readFileSync (fs s) file of Inl e \<Rightarrow> [] | Inr content \<Rightarrow> content)
             | Some content \<Rightarrow> content)
      in if trim oldContent' \<noteq> trim newContent then writeFileSync file newContent s
         else Normal s)"

definition setFileContentIfFirstCodeLineIsDifferent ::
  "string \<Rightarrow> string \<Rightarrow> string option \<Rightarrow> state \<Rightarrow> completion" where
  "setFileContentIfFirstCodeLineIsDifferent file newContent oldContent s =
     (let oldContent' =
            (case oldContent of
               None \<Rightarrow> (case readFileSync (fs s) file of Inl e \<Rightarrow> [] | Inr content \<Rightarrow> content)
             | Some content \<Rightarrow> content)
      in if getFirstCodeLine oldContent' \<noteq> getFirstCodeLine newContent
         then writeFileSync file newContent s
         else Normal s)"

section \<open>The aggregator builder\<close>

definition filter_fn :: "pluginOptions \<Rightarrow> string \<Rightarrow> bool" where
  "filter_fn opts file = (case opt_filter opts of None \<Rightarrow> True | Some f \<Rightarrow> f file)"

definition addExportedFields :: "string list \<Rightarrow> jsobj \<Rightarrow> jsobj" where
  "addExportedFields fieldNames obj = fold (\<lambda>field obj'. obj_set obj' field) fieldNames obj"

text \<open>The custom branch of \<^verbatim>\<open>importFile\<close>, once the filter has accepted the file: the
  code of the result, when it is a non-empty string, goes into the generated module,
  followed by a quote character and a line break; the exports go into the export set.\<close>

definition importCustom :: "customResult option \<Rightarrow> state \<Rightarrow> state" where
  "importCustom result s =
     (let s1 = (case result of
                  None \<Rightarrow> s
                | Some r \<Rightarrow>
                    (case result_code r of
                       None \<Rightarrow> s
                     | Some c \<Rightarrow>
                         (if c \<noteq> [] then
                            s\<lparr>importsCode := importsCode s @ c @ [CHR 0x27, CHR 0x0A]\<rparr>
                          else s)))
      in case result of
           None \<Rightarrow> s1
         | Some r \<Rightarrow>
             (case result_exports r of
                None \<Rightarrow> s1
              | Some fieldNames \<Rightarrow>
                  s1\<lparr>exportedFields := addExportedFields fieldNames (exportedFields s1)\<rparr>))"

text \<open>\<open>outputName\<close> and \<open>lines\<close> are the constants \<^verbatim>\<open>outputName\<close> and
  \<^verbatim>\<open>possibleImportLines\<close> of the enclosing run; \<open>index\<close> and \<open>array\<close> are the further
  arguments \<^verbatim>\<open>forEach\<close> passes. \<open>None\<close>: the call does not return.\<close>

definition importFile ::
  "pluginOptions \<Rightarrow> string option \<Rightarrow> string list \<Rightarrow> string \<Rightarrow> nat \<Rightarrow> string list \<Rightarrow> state
     \<Rightarrow> completion option" where
  "importFile opts outputName lines file index array s =
     (if outputName \<noteq> None \<and> isFileOfType file (opt_fileExtensionsJs opts) then
        (if filter_fn opts file then
           (case readFileSync (fs s) file of
              Inl e \<Rightarrow> Some (Thrown e s)
            | Inr content \<Rightarrow>
                (case getExportedFields opts lines content False of
                   None \<Rightarrow> None
                 | Some (fieldNames, logged) \<Rightarrow>
                     Some (Normal (s\<lparr>
                       console := console s @ logged,
                       importsCode := importsCode s @ ''import {'' @ join '', '' fieldNames
                                        @ ''} from '' @ [CHR 0x27] @ file @ [CHR 0x27]
                                        @ '';'' @ [CHR 0x0A],
                       exportedFields := addExportedFields fieldNames (exportedFields s)\<rparr>))))
         else Some (Normal s))
      else if outputName \<noteq> None \<and> isFileOfType file (opt_fileExtensionsOther opts) then
        (if filter_fn opts file then
           Some (Normal (s\<lparr>importsCode := importsCode s @ ''import '' @ [CHR 0x27] @ file
                                            @ [CHR 0x27] @ '';'' @ [CHR 0x0A]\<rparr>))
         else Some (Normal s))
      else
        (case opt_fileExtensionsCustom opts of
           None \<Rightarrow> Some (Normal s)
         | Some handler \<Rightarrow>
             (if filter_fn opts file then
                Some (Normal (importCustom (handler file index array) s))
              else Some (Normal s))))"

section \<open>The replacing regular expression\<close>

text \<open>\<^verbatim>\<open>/^(\s*import\s*{\s*)[^}]*([\S,]\s*}\s*from\s*['"]).*(['"]\s*;[\s\S]*)/i\<close>\<close>

definition regexImportReplacer :: "regexItem list" where
  "regexImportReplacer =
     [Border, Star isWhiteSpace,
        One (letter CHR ''i''), One (letter CHR ''m''), One (letter CHR ''p''),
        One (letter CHR ''o''), One (letter CHR ''r''), One (letter CHR ''t''),
        Star isWhiteSpace, One (\<lambda>c. c = CHR ''{''), Star isWhiteSpace, Border,
      Star (\<lambda>c. c \<noteq> CHR ''}''),
      Border, One (\<lambda>c. \<not> isWhiteSpace c \<or> c = CHR '',''), Star isWhiteSpace,
        One (\<lambda>c. c = CHR ''}''), Star isWhiteSpace,
        One (letter CHR ''f''), One (letter CHR ''r''), One (letter CHR ''o''),
        One (letter CHR ''m''), Star isWhiteSpace, One isQuote, Border,
      Star isDot,
      Border, One isQuote, Star isWhiteSpace, One (\<lambda>c. c = CHR '';''), Star (\<lambda>c. True),
        Border]"

text \<open>The three captured groups of a match.\<close>

definition regexImportReplacer_exec :: "string \<Rightarrow> (string \<times> string \<times> string) option" where
  "regexImportReplacer_exec s =
     (case matchItems regexImportReplacer s 0 [] of
        Some [e3, b3, e2, b2, e1, b1] \<Rightarrow>
          Some (take (e1 - b1) (drop b1 s), take (e2 - b2) (drop b2 s), take (e3 - b3) (drop b3 s))
      | _ \<Rightarrow> None)"

section \<open>The consumer rewriter\<close>

definition levelsDeep :: "string \<Rightarrow> int" where
  "levelsDeep file = int (length (split_on CHR ''/'' file)) - 2"

definition importLineFields :: "jsobj \<Rightarrow> string list \<Rightarrow> string" where
  "importLineFields obj fieldNames =
     join '', '' (filter (\<lambda>value. value \<notin> set fieldNames) (object_keys obj))"

definition importLineFrom :: "string \<Rightarrow> string \<Rightarrow> exn + string" where
  "importLineFrom file outputName =
     (case repeat_str ''../'' (levelsDeep file) of
        Inl e \<Rightarrow> Inl e
      | Inr ups \<Rightarrow> Inr (''./'' @ ups @ outputName))"

text \<open>The import line as first built, and as rebuilt from the first statement of the file
  when that is one of the run's own and has the shape of the regular expression.\<close>

definition defaultImportLine :: "string \<Rightarrow> string \<Rightarrow> string" where
  "defaultImportLine lineFields lineFrom =
     ''import {'' @ lineFields @ ''} from '' @ [CHR 0x27] @ lineFrom @ [CHR 0x27] @ '';''"

definition newImportLine :: "string list \<Rightarrow> string \<Rightarrow> string \<Rightarrow> string \<Rightarrow> string" where
  "newImportLine lines code lineFields lineFrom =
     (let firstImportStatement = getFirstImportStatement code
      in if firstImportStatement \<noteq> [] \<and> containsOurImportStatement lines firstImportStatement
         then (case regexImportReplacer_exec firstImportStatement of
                 None \<Rightarrow> defaultImportLine lineFields lineFrom
               | Some (p1, p2, p3) \<Rightarrow>
                   (let p2' = (if \<not> startsWith p2 '','' then substringFrom p2 1 else p2)
                    in p1 @ lineFields @ p2' @ lineFrom @ p3))
         else defaultImportLine lineFields lineFrom)"

definition modifyFile ::
  "pluginOptions \<Rightarrow> string option \<Rightarrow> string list \<Rightarrow> string \<Rightarrow> nat \<Rightarrow> string list \<Rightarrow> state
     \<Rightarrow> completion option" where
  "modifyFile opts outputName lines file index array s =
     (if isFileOfType file (opt_fileExtensionsJs opts) then
        (case readFileSync (fs s) file of
           Inl e \<Rightarrow> Some (Thrown e s)
         | Inr code \<Rightarrow>
             (case purgeImportedFieldsCode lines code of
                None \<Rightarrow> None
              | Some purgedCode \<Rightarrow>
                  (case outputName of
                     None \<Rightarrow>
                       Some (setFileContentIfFirstCodeLineIsDifferent file purgedCode (Some code) s)
                   | Some outName \<Rightarrow>
                       (case getExportedFields opts lines purgedCode True of
                          None \<Rightarrow> None
                        | Some (fieldNames, logged) \<Rightarrow>
                            (let s1 = s\<lparr>console := console s @ logged\<rparr>;
                                 lineFields = importLineFields (exportedFields s1) fieldNames
                             in case importLineFrom file outName of
                                  Inl e \<Rightarrow> Some (Thrown e s1)
                                | Inr lineFrom \<Rightarrow>
                                    (let newCode = newImportLine lines code lineFields lineFrom
                                                     @ [CHR 0x0A] @ purgedCode
                                     in Some (setFileContentIfFirstCodeLineIsDifferent
                                                file newCode (Some code) s1)))))))
      else Some (Normal s))"

section \<open>The run\<close>

text \<open>\<^verbatim>\<open>array.forEach(f)\<close> for an \<open>f\<close> that may throw or not return: the loop stops
  there.\<close>

fun forEach ::
  "('a \<Rightarrow> nat \<Rightarrow> 'a list \<Rightarrow> state \<Rightarrow> completion option) \<Rightarrow> 'a list \<Rightarrow> nat \<Rightarrow> 'a list \<Rightarrow> state
     \<Rightarrow> completion option" where
  "forEach f [] index array s = Some (Normal s)"
| "forEach f (x # xs) index array s =
     (case f x index array s of
        None \<Rightarrow> None
      | Some (Thrown e s') \<Rightarrow> Some (Thrown e s')
      | Some (Normal s') \<Rightarrow> forEach f xs (Suc index) array s')"

text \<open>The body of the two outer loops: collect the files under a root, sort them, and
  run \<open>f\<close> over them.\<close>

definition forRoot ::
  "(string \<Rightarrow> nat \<Rightarrow> string list \<Rightarrow> state \<Rightarrow> completion option) \<Rightarrow> string \<Rightarrow> nat \<Rightarrow> string list
     \<Rightarrow> state \<Rightarrow> completion option" where
  "forRoot f path index array s =
     (let (allFilesList, logged) = getAllFiles (fs s) (purgePath path);
          sorted = sort_by compareFileOrder allFilesList
      in forEach f sorted 0 sorted (s\<lparr>console := console s @ logged\<rparr>))"

definition aggregatorContent :: "state \<Rightarrow> string" where
  "aggregatorContent s =
     importsCode s @ [CHR 0x0A] @ ''export {'' @ join '', '' (object_keys (exportedFields s))
       @ ''};'' @ [CHR 0x0A]"

definition initialState :: "fsnode \<Rightarrow> state" where
  "initialState root =
     \<lparr>fs = root, writes = [], console = [], importsCode = [], exportedFields = []\<rparr>"

definition onPreInit :: "pluginOptions \<Rightarrow> fsnode \<Rightarrow> completion option" where
  "onPreInit opts root =
     (let outputName = purgeOutputName (opt_outputName opts);
          previousOutputNames =
            map (\<lambda>n. the (purgeOutputName (Some n))) (opt_previousOutputNames opts);
          lines = possibleImportLines outputName previousOutputNames
      in case forEach (forRoot (importFile opts outputName lines)) (opt_import opts) 0
                (opt_import opts) (initialState root) of
           None \<Rightarrow> None
         | Some (Thrown e s1) \<Rightarrow> Some (Thrown e s1)
         | Some (Normal s1) \<Rightarrow>
             (case (case outputName of
                      None \<Rightarrow> Normal s1
                    | Some outName \<Rightarrow>
                        setFileContentIfDifferent (''./'' @ outName) (aggregatorContent s1)
                          None s1) of
                Thrown e s2 \<Rightarrow> Some (Thrown e s2)
              | Normal s2 \<Rightarrow>
                  forEach (forRoot (modifyFile opts outputName lines)) (opt_modify opts) 0
                    (opt_modify opts) s2))"

text \<open>The files a run leaves behind, and the calls of \<^verbatim>\<open>writeFileSync\<close> it made.\<close>

fun finalState :: "completion \<Rightarrow> state" where
  "finalState (Normal s) = s"
| "finalState (Thrown e s) = s"

section \<open>Example inputs\<close>

text \<open>A conflict block whose two sides both hold an import line of the run, with nothing
  after the closing marker.\<close>

definition conflictWithoutFinalNewline :: string where
  "conflictWithoutFinalNewline =
     ''<<<<<<< HEAD'' @ [CHR 0x0A] @
     ''import {A} from './../imports.js';'' @ [CHR 0x0A] @
     ''======='' @ [CHR 0x0A] @
     ''import {B} from './../imports.js';'' @ [CHR 0x0A] @
     ''>>>>>>> other''"

text \<open>The HEAD side of a conflict block that starts with a statement of the developer and
  holds the import line of the run after it; the other side.\<close>

definition sideWithLaterImport :: string where
  "sideWithLaterImport =
     ''const x = 1;'' @ [CHR 0x0A] @ ''import {A} from './../imports.js';'' @ [CHR 0x0A]"

definition sideWithImport :: string where
  "sideWithImport = ''import {B} from './../imports.js';'' @ [CHR 0x0A]"

definition conflictWithLaterImport :: string where
  "conflictWithLaterImport =
     ''<<<<<<< HEAD'' @ [CHR 0x0A] @ sideWithLaterImport @
     ''======='' @ [CHR 0x0A] @ sideWithImport @
     ''>>>>>>> other'' @ [CHR 0x0A] @ ''rest''"

definition defaultLines :: "string list" where
  "defaultLines = possibleImportLines (Some ''imports.js'') []"

text \<open>What Babel returns on the texts of the examples: the program body of each text that
  parses, the error of the one that does not.\<close>

definition exampleBabel :: "string \<Rightarrow> string + statement list" where
  "exampleBabel source =
     (if source = [] then Inr []
      else if source = ''export const X = 1;'' then
        Inr [ExportNamedDeclaration [] (VariableDeclaration [Identifier ''X''])]
      else if source = ''export const __proto__ = 1; export const B = 2;'' then
        Inr [ExportNamedDeclaration [] (VariableDeclaration [Identifier ''__proto__'']),
             ExportNamedDeclaration [] (VariableDeclaration [Identifier ''B''])]
      else Inl ''SyntaxError: Unexpected token'')"

text \<open>The options with their defaults, for the roots of the README.\<close>

definition exampleOptions :: pluginOptions where
  "exampleOptions =
     \<lparr>opt_import = [''./src/''], opt_modify = [''./pages/''], opt_filter = None,
      opt_outputName = Some ''imports.js'', opt_previousOutputNames = [],
      opt_babel = exampleBabel, opt_fileExtensionsJs = [''js'', ''jsx''],
      opt_fileExtensionsOther = [''css'', ''less'', ''sass'', ''scss''],
      opt_fileExtensionsCustom = None\<rparr>"

definition exampleHandler :: "string \<Rightarrow> nat \<Rightarrow> string list \<Rightarrow> customResult option" where
  "exampleHandler file index array =
     Some \<lparr>result_code = Some (''import {a} from '' @ [CHR 0x27] @ file @ [CHR 0x27] @ '';''),
           result_exports = Some [''a'']\<rparr>"

text \<open>A project whose only page starts with an import line of the run that a formatter
  has spaced out, and nothing to import.\<close>

definition spacedImportTree :: fsnode where
  "spacedImportTree =
     Dir [(''pages'', Dir [(''p.js'', File (''import { A } from './../imports.js';'' @ [CHR 0x0A]))])]"

definition spacedImportOptions :: pluginOptions where
  "spacedImportOptions = exampleOptions\<lparr>opt_import := []\<rparr>"

text \<open>A project with one module and one page that exports \<^verbatim>\<open>X\<close> itself.\<close>

definition exampleTree :: fsnode where
  "exampleTree =
     Dir [(''src'', Dir [(''a.js'', File ''export const __proto__ = 1; export const B = 2;''),
                        (''broken.js'', File ''export const = ;'')]),
          (''pages'', Dir [(''p.js'', File ''export const X = 1;'')])]"

definition exampleState :: state where
  "exampleState = (initialState exampleTree)\<lparr>exportedFields := [''A'', ''X'', ''B'']\<rparr>"





text \<open>The identifiers a program body declares in named exports, in the words of the
  specification: (a) the names of export specifiers, (b) the identifiers of variable
  declarations, (c) the identifier elements of array patterns, (d) the identifier values
  of the properties of object patterns.\<close>

definition spec_declaredIdentifiers :: "statement list \<Rightarrow> string set" where
  "spec_declaredIdentifiers body =
     {n. \<exists>specs decl. ExportNamedDeclaration specs decl \<in> set body \<and>
           (ExportedIdentifier n \<in> set specs \<or>
            (\<exists>ids target. decl = VariableDeclaration ids \<and> target \<in> set ids \<and>
               (target = Identifier n \<or>
                (\<exists>elems. target = ArrayPattern elems \<and> Some (Identifier n) \<in> set elems) \<or>
                (\<exists>props key. target = ObjectPattern props \<and>
                               ObjectProperty key (Identifier n) \<in> set props))))}"

section \<open>Facts about the string operations\<close>

lemma indexOfAux_skip:
  "(\<And>j. j < length u \<Longrightarrow> \<not> prefix p (drop j (u @ v))) \<Longrightarrow>
   indexOfAux p (u @ v) i = indexOfAux p v (i + length u)"
proof (induction u arbitrary: i)
  case Nil
  then show ?case by simp
next
  case (Cons c u)
  have h0: "\<not> prefix p ((c # u) @ v)" using Cons.prems[of 0] by simp
  have hj: "\<And>j. j < length u \<Longrightarrow> \<not> prefix p (drop j (u @ v))"
    using Cons.prems[of "Suc j" for j] by simp
  show ?case using h0 Cons.IH[OF hj, of "Suc i"] by simp
qed

lemma indexOfAux_here: "prefix p v \<Longrightarrow> indexOfAux p v i = int i"
  by (cases v) auto

lemma no_early_occurrence:
  assumes ns: "\<not> sublist p (u @ butlast p)" and j: "j < length u"
  shows "\<not> prefix p (drop j (u @ p @ t))"
proof
  assume pre: "prefix p (drop j (u @ p @ t))"
  have pne: "p \<noteq> []" using ns by auto
  define w where "w = drop j u"
  have wlen: "length w \<ge> 1" using j by (simp add: w_def)
  have split: "drop j (u @ p @ t) = (w @ butlast p) @ (last p # t)"
    using j pne by (simp add: w_def)
  have len: "length p \<le> length (w @ butlast p)" using wlen pne by (cases p) auto
  have p1: "prefix p ((w @ butlast p) @ (last p # t))" using pre split by simp
  have p2: "prefix (w @ butlast p) ((w @ butlast p) @ (last p # t))" by simp
  have "prefix p (w @ butlast p)"
    by (rule prefix_length_prefix[OF p1 p2 len])
  moreover have "suffix (w @ butlast p) (u @ butlast p)"
    by (simp add: w_def suffix_drop)
  ultimately have "sublist p (u @ butlast p)"
    unfolding sublist_altdef' by blast
  then show False using ns by simp
qed

text \<open>The first occurrence of \<open>p\<close> at or after the end of \<open>pre\<close>, when none starts
  inside \<open>u\<close>.\<close>

lemma indexOf_append_at:
  assumes "\<not> sublist p (u @ butlast p)"
  shows "indexOf (pre @ u @ p @ t) p (int (length pre)) = int (length pre + length u)"
proof -
  have "indexOfAux p (u @ p @ t) (length pre) = indexOfAux p (p @ t) (length pre + length u)"
    by (rule indexOfAux_skip) (rule no_early_occurrence[OF assms])
  also have "\<dots> = int (length pre + length u)"
    by (rule indexOfAux_here) simp
  finally show ?thesis by (simp add: indexOf_def)
qed

lemma indexOf_char_at:
  assumes "c \<notin> set u"
  shows "indexOf (pre @ u @ c # t) [c] (int (length pre)) = int (length pre + length u)"
proof -
  have "\<not> sublist [c] (u @ butlast [c])"
    using assms by (auto simp: sublist_def)
  from indexOf_append_at[OF this, of pre t] show ?thesis by simp
qed

lemma substring_mid:
  "substring (pre @ u @ t) (int (length pre)) (int (length pre + length u)) = u"
  by (simp add: substring_def Let_def)

lemma substringFrom_append: "substringFrom (pre @ t) (int (length pre)) = t"
  by (simp add: substringFrom_def)

lemma stringIncludesAny_fold:
  "fold (\<lambda>substring incl. if \<not> incl then includes_str s substring else incl) subs b
     \<longleftrightarrow> b \<or> (\<exists>sub \<in> set subs. includes_str s sub)"
  by (induction subs arbitrary: b) auto

lemma stringIncludesAny_iff:
  "stringIncludesAny s subs \<longleftrightarrow> (\<exists>sub \<in> set subs. includes_str s sub)"
  by (simp add: stringIncludesAny_def stringIncludesAny_fold)

lemma possibleImportLines_nonempty: "[] \<notin> set (possibleImportLines outputName previous)"
  by (auto simp: possibleImportLines_def)

lemma not_ours_empty:
  "\<not> containsOurImportStatement (possibleImportLines outputName previous) []"
  using possibleImportLines_nonempty[of outputName previous]
  by (auto simp: containsOurImportStatement_def stringIncludesAny_iff includes_str_def)

lemma getFirstImportStatement_conflict:
  "getFirstImportStatement (''<<<<<<< HEAD'' @ t) = []"
  by (simp add: getFirstImportStatement_def regex_test_def regexStartsWithImport_def
      isWhiteSpace_def letter_def)

section \<open>The purge loop\<close>

text \<open>One round on a text that starts with a conflict block: the markers are where the
  source finds them when no line break lies in the marker lines and neither separator
  occurs earlier in the side before it.\<close>

lemma purgeRound_conflict:
  assumes nc: "trimStart code = ''<<<<<<< HEAD'' @ l1 @ [CHR 0x0A] @ A @ ''======='' @ l2 @ [CHR 0x0A]
                   @ B @ ''>>>>>>>'' @ l3 @ [CHR 0x0A] @ rest"
    and l1: "CHR 0x0A \<notin> set l1" and l2: "CHR 0x0A \<notin> set l2" and l3: "CHR 0x0A \<notin> set l3"
    and sepA: "\<not> sublist ''======='' (A @ ''======'')"
    and sepB: "\<not> sublist ''>>>>>>>'' (B @ ''>>>>>>'')"
    and lines: "lines = possibleImportLines outputName previous"
  shows "purgeRound lines code =
           (if containsOurImportStatement lines (trim A) \<and> containsOurImportStatement lines (trim B)
            then Some rest else None)"
proof -
  define newCode where "newCode = trimStart code"
  define p1 where "p1 = ''<<<<<<< HEAD'' @ l1 @ [CHR 0x0A]"
  define p2 where "p2 = p1 @ A"
  define p3 where "p3 = p2 @ ''======='' @ l2 @ [CHR 0x0A]"
  define p4 where "p4 = p3 @ B"
  define p5 where "p5 = p4 @ ''>>>>>>>'' @ l3 @ [CHR 0x0A]"
  have first: "getFirstImportStatement newCode = []"
    using getFirstImportStatement_conflict nc by (simp add: newCode_def)
  have nofirst: "\<not> containsOurImportStatement lines []"
    using not_ours_empty lines by simp
  have sw: "startsWith newCode ''<<<<<<< HEAD''"
    using nc by (simp add: newCode_def startsWith_def)
  have e1: "newCode = [] @ (''<<<<<<< HEAD'' @ l1) @ CHR 0x0A # (A @ ''======='' @ l2 @ [CHR 0x0A]
                   @ B @ ''>>>>>>>'' @ l3 @ [CHR 0x0A] @ rest)"
    using nc by (simp add: newCode_def)
  have i1: "indexOf newCode [CHR 0x0A] 0 + 1 = int (length p1)"
  proof -
    have "CHR 0x0A \<notin> set (''<<<<<<< HEAD'' @ l1)" using l1 by simp
    from indexOf_char_at[OF this, of "[]"] show ?thesis
      unfolding e1 p1_def by simp
  qed
  have e2: "newCode = p1 @ A @ ''======='' @ (l2 @ [CHR 0x0A] @ B @ ''>>>>>>>'' @ l3 @ [CHR 0x0A] @ rest)"
    using nc by (simp add: newCode_def p1_def)
  have i2: "indexOf newCode ''======='' (int (length p1)) = int (length p2)"
  proof -
    have "\<not> sublist ''======='' (A @ butlast ''======='')" using sepA by simp
    from indexOf_append_at[OF this, of p1] show ?thesis
      unfolding e2 p2_def by simp
  qed
  have s2: "substring newCode (int (length p1)) (int (length p2)) = A"
    unfolding e2 p2_def using substring_mid[of p1 A] by simp
  have e3: "newCode = p2 @ (''======='' @ l2) @ CHR 0x0A # (B @ ''>>>>>>>'' @ l3 @ [CHR 0x0A] @ rest)"
    using nc by (simp add: newCode_def p1_def p2_def)
  have i3: "indexOf newCode [CHR 0x0A] (int (length p2)) + 1 = int (length p3)"
  proof -
    have "CHR 0x0A \<notin> set (''======='' @ l2)" using l2 by simp
    from indexOf_char_at[OF this, of p2] show ?thesis
      unfolding e3 p3_def by simp
  qed
  have e4: "newCode = p3 @ B @ ''>>>>>>>'' @ (l3 @ [CHR 0x0A] @ rest)"
    using nc by (simp add: newCode_def p1_def p2_def p3_def)
  have i4: "indexOf newCode ''>>>>>>>'' (int (length p3)) = int (length p4)"
  proof -
    have "\<not> sublist ''>>>>>>>'' (B @ butlast ''>>>>>>>'')" using sepB by simp
    from indexOf_append_at[OF this, of p3] show ?thesis
      unfolding e4 p4_def by simp
  qed
  have s4: "substring newCode (int (length p3)) (int (length p4)) = B"
    unfolding e4 p4_def using substring_mid[of p3 B] by simp
  have e5: "newCode = p4 @ (''>>>>>>>'' @ l3) @ CHR 0x0A # rest"
    using nc by (simp add: newCode_def p1_def p2_def p3_def p4_def)
  have i5: "indexOf newCode [CHR 0x0A] (int (length p4)) + 1 = int (length p5)"
  proof -
    have "CHR 0x0A \<notin> set (''>>>>>>>'' @ l3)" using l3 by simp
    from indexOf_char_at[OF this, of p4] show ?thesis
      unfolding e5 p5_def by simp
  qed
  have e6: "newCode = p5 @ rest"
    using nc by (simp add: newCode_def p1_def p2_def p3_def p4_def p5_def)
  have s6: "substringFrom newCode (int (length p5)) = rest"
    unfolding e6 by (rule substringFrom_append)
  have pos1: "int (length p1) \<ge> 1" by (simp add: p1_def)
  have pos3: "int (length p3) \<ge> 1" by (simp add: p3_def)
  show ?thesis
    unfolding purgeRound_def Let_def newCode_def[symmetric] first
    using nofirst sw
    by (simp only: i1 i2 s2 i3 i4 s4 i5 s6 pos1 pos3 if_True if_False of_nat_0_le_iff)
qed

text \<open>A text that a round gives back unchanged keeps the loop running for ever.\<close>

lemma purge_stuck:
  assumes "purgeRound lines code = Some code"
  shows "purgeImportedFieldsCode lines code = None"
proof (rule ccontr)
  assume "purgeImportedFieldsCode lines code \<noteq> None"
  then obtain y where y: "purgeImportedFieldsCode lines code = Some y" by auto
  have "purgeRound lines code \<noteq> Some code"
  proof (rule purgeImportedFieldsCode.raw_induct
      [where P = "\<lambda>l c r. purgeRound l c \<noteq> Some c", OF _ y])
    fix purge l c r
    assume IH: "\<And>l c r. purge l c = Some r \<Longrightarrow> purgeRound l c \<noteq> Some c"
      and step: "(case purgeRound l c of None \<Rightarrow> Some c | Some c' \<Rightarrow> purge l c') = Some r"
    show "purgeRound l c \<noteq> Some c"
    proof
      assume stuck: "purgeRound l c = Some c"
      with step have "purge l c = Some r" by simp
      from IH[OF this] stuck show False by simp
    qed
  qed
  with assms show False by simp
qed

text \<open>What the loop returns is a text on which no rule fires, so purging it again
  returns it unchanged.\<close>

lemma purge_result_fixed:
  assumes "purgeImportedFieldsCode lines code = Some y"
  shows "purgeRound lines y = None"
proof (rule purgeImportedFieldsCode.raw_induct
    [where P = "\<lambda>l c r. purgeRound l r = None", OF _ assms])
  fix purge l c r
  assume IH: "\<And>l c r. purge l c = Some r \<Longrightarrow> purgeRound l r = None"
    and step: "(case purgeRound l c of None \<Rightarrow> Some c | Some c' \<Rightarrow> purge l c') = Some r"
  show "purgeRound l r = None"
    using IH step by (cases "purgeRound l c") auto
qed

lemma purge_idempotent:
  assumes "purgeImportedFieldsCode lines code = Some y"
  shows "purgeImportedFieldsCode lines y = Some y"
  using purge_result_fixed[OF assms] by (simp add: purgeImportedFieldsCode.simps)

text \<open>
  Claim C4. The claim says the purge loop terminates on every text. On a conflict block
  whose two sides hold an import line of the run and whose closing marker is not followed
  by a line break, the second rule sets \<^verbatim>\<open>code\<close> to the whole text again and asks for
  another round: the loop does not return.
\<close>

theorem purge_diverges_on_conflict_without_final_newline:
  "purgeRound defaultLines conflictWithoutFinalNewline = Some conflictWithoutFinalNewline \<and>
   purgeImportedFieldsCode defaultLines conflictWithoutFinalNewline = None"
proof -
  have r: "purgeRound defaultLines conflictWithoutFinalNewline = Some conflictWithoutFinalNewline"
    by code_simp
  from r purge_stuck[OF r] show ?thesis by simp
qed

text \<open>
  Claim C5, as the code has it. A text whose left-trimmed form is a conflict block, with a
  line break after the closing marker line, is collapsed to the text after that line
  exactly when the whole text of each side (trimmed) contains an import line of the run,
  and the loop goes on from there; otherwise the text is returned untouched.
\<close>

theorem purge_conflict_block:
  assumes "trimStart code = ''<<<<<<< HEAD'' @ l1 @ [CHR 0x0A] @ A @ ''======='' @ l2 @ [CHR 0x0A]
                   @ B @ ''>>>>>>>'' @ l3 @ [CHR 0x0A] @ rest"
    and "CHR 0x0A \<notin> set l1" and "CHR 0x0A \<notin> set l2" and "CHR 0x0A \<notin> set l3"
    and "\<not> sublist ''======='' (A @ ''======'')"
    and "\<not> sublist ''>>>>>>>'' (B @ ''>>>>>>'')"
    and "lines = possibleImportLines outputName previous"
  shows "purgeImportedFieldsCode lines code =
           (if containsOurImportStatement lines (trim A) \<and> containsOurImportStatement lines (trim B)
            then purgeImportedFieldsCode lines rest else Some code)"
  using purgeRound_conflict[OF assms]
  by (simp add: purgeImportedFieldsCode.simps[of lines code])

theorem purge_conflict_block_witness:
  "purgeImportedFieldsCode defaultLines conflictWithLaterImport = Some ''rest''"
proof -
  have nc: "trimStart conflictWithLaterImport =
      ''<<<<<<< HEAD'' @ [] @ [CHR 0x0A] @ sideWithLaterImport @ ''======='' @ [] @ [CHR 0x0A]
        @ sideWithImport @ ''>>>>>>>'' @ '' other'' @ [CHR 0x0A] @ ''rest''"
    by (simp add: conflictWithLaterImport_def trimStart_def isWhiteSpace_def)
  have a: "\<not> sublist ''======='' (sideWithLaterImport @ ''======'')" by code_simp
  have b: "\<not> sublist ''>>>>>>>'' (sideWithImport @ ''>>>>>>'')" by code_simp
  have c: "containsOurImportStatement defaultLines (trim sideWithLaterImport)" by code_simp
  have d: "containsOurImportStatement defaultLines (trim sideWithImport)" by code_simp
  have e: "purgeImportedFieldsCode defaultLines ''rest'' = Some ''rest''" by code_simp
  have l: "defaultLines = possibleImportLines (Some ''imports.js'') []"
    by (simp add: defaultLines_def)
  show ?thesis
    using purge_conflict_block[OF nc _ _ _ a b l] c d e by simp
qed

text \<open>
  Claim C5, as stated, asks for the leading statement of each side to be recognised. The
  HEAD side below starts with \<^verbatim>\<open>const x = 1;\<close>, which is no import statement and holds no
  import line of the run; the block is collapsed all the same.
\<close>

theorem conflict_collapsed_without_leading_import:
  "\<not> (purgeImportedFieldsCode defaultLines conflictWithLaterImport = Some ''rest'' \<longleftrightarrow>
        containsOurImportStatement defaultLines (getFirstImportStatement sideWithLaterImport) \<and>
        containsOurImportStatement defaultLines (getFirstImportStatement sideWithImport))"
proof -
  have "purgeImportedFieldsCode defaultLines conflictWithLaterImport = Some ''rest''"
    by code_simp
  moreover have
    "\<not> containsOurImportStatement defaultLines (getFirstImportStatement sideWithLaterImport)"
    by code_simp
  ultimately show ?thesis by simp
qed

section \<open>File classes\<close>

lemma isFileOfType_iff:
  "isFileOfType file types \<longleftrightarrow>
     (\<exists>t \<in> set types. suffix (if prefix ''.'' t then t else ''.'' @ t) (toLowerCase file))"
  by (simp add: isFileOfType_def list_ex_iff endsWith_def startsWith_def)

text \<open>A configured extension in lower case is matched by the suffix in every letter
  casing.\<close>

lemma lowercase_extension_matches_any_casing:
  assumes "toLowerCase ending = (if prefix ''.'' ext then ext else ''.'' @ ext)"
  shows "isFileOfType (base @ ending) [ext]"
  using assms
  by (auto simp: isFileOfType_def endsWith_def startsWith_def toLowerCase_def suffix_def)

text \<open>
  Claim C8. The claim says a file whose suffix matches a configured js-like extension in
  any letter casing is js-like. The path is lower-cased, the configured extension is not:
  a file \<^verbatim>\<open>App.JSX\<close> is js-like under the extension \<^verbatim>\<open>jsx\<close> and not under the extension
  \<^verbatim>\<open>JSX\<close>, the very suffix it has.
\<close>

theorem uppercase_extension_never_matches:
  "\<not> isFileOfType ''./src/App.JSX'' [''js'', ''JSX''] \<and>
   isFileOfType ''./src/App.JSX'' [''js'', ''jsx'']"
  by code_simp

section \<open>The import path\<close>

lemma split_on_dot_slash:
  "split_on CHR ''/'' (''./'' @ rest) = ''.'' # split_on CHR ''/'' rest"
  by simp

text \<open>For a target whose path is \<^verbatim>\<open>./\<close> followed by \<open>s\<close> segments, the import path is
  \<^verbatim>\<open>./\<close>, then \<open>s - 1\<close> times \<^verbatim>\<open>../\<close>, then the output name: the path from the directory
  of the target back to the generated module.\<close>

lemma import_path_depth:
  "importLineFrom (''./'' @ rest) outName =
     Inr (''./'' @ concat (replicate (length (split_on CHR ''/'' rest) - 1) ''../'') @ outName)"
proof -
  have "split_on CHR ''/'' rest \<noteq> []"
    by (cases rest) (auto split: list.splits)
  then obtain n where n: "length (split_on CHR ''/'' rest) = Suc n"
    by (cases "split_on CHR ''/'' rest") auto
  have "levelsDeep (''./'' @ rest) = int n"
    unfolding levelsDeep_def split_on_dot_slash using n by simp
  then show ?thesis
    using n by (simp add: importLineFrom_def repeat_str_def)
qed

lemma import_path_depth_example:
  "importLineFrom ''./pages/p.js'' ''imports.js'' = Inr ''./../imports.js'' \<and>
   importLineFrom ''./p.js'' ''imports.js'' = Inr ''./imports.js''"
  by code_simp

text \<open>
  Claim C2. The claim says a target of \<open>s\<close> segments has depth \<open>s - 1\<close> and gets that many
  \<^verbatim>\<open>../\<close> in its import path: \<^verbatim>\<open>./../imports.js\<close> for \<^verbatim>\<open>pages/p.js\<close>. The code counts the
  segments less two, which is right only for a path that starts with \<^verbatim>\<open>./\<close>. Under a root
  written without it, \<^verbatim>\<open>pages/p.js\<close> gets \<^verbatim>\<open>./imports.js\<close>, a path into its own directory,
  and that line is written into the file; for a single segment such as \<^verbatim>\<open>p.js\<close> the count
  is negative and \<^verbatim>\<open>repeat\<close> throws.
\<close>

theorem import_path_of_unprefixed_target:
  "importLineFrom ''pages/p.js'' ''imports.js'' = Inr ''./imports.js'' \<and>
   importLineFrom ''pages/p.js'' ''imports.js'' \<noteq>
     Inr (''./'' @ concat (replicate (length (split_on CHR ''/'' ''pages/p.js'') - 1) ''../'')
            @ ''imports.js'') \<and>
   map_option (\<lambda>c. writes (finalState c))
     (modifyFile exampleOptions (Some ''imports.js'') defaultLines ''pages/p.js'' 0
        [''pages/p.js''] exampleState) =
     Some [(''pages/p.js'',
            ''import {A, B} from './imports.js';'' @ [CHR 0x0A] @ ''export const X = 1;'')] \<and>
   importLineFrom ''p.js'' ''imports.js'' = Inl RangeError"
  by code_simp

section \<open>The idempotent writer\<close>

lemma indexOfAux_char:
  "indexOfAux [c] s i =
     (if c \<in> set s then int (i + length (takeWhile (\<lambda>x. x \<noteq> c) s)) else -1)"
  by (induction s arbitrary: i) auto

lemma getFirstCodeLine_takeWhile:
  "getFirstCodeLine code = trim (takeWhile (\<lambda>c. c \<noteq> CHR '';'') code)"
proof (cases "CHR '';'' \<in> set code")
  case True
  then have "indexOf code '';'' 0 = int (length (takeWhile (\<lambda>c. c \<noteq> CHR '';'') code))"
    by (simp add: indexOf_def indexOfAux_char)
  moreover have "length (takeWhile (\<lambda>c. c \<noteq> CHR '';'') code) \<le> length code"
    by (rule length_takeWhile_le)
  moreover have "take (length (takeWhile (\<lambda>c. c \<noteq> CHR '';'') code)) code
                   = takeWhile (\<lambda>c. c \<noteq> CHR '';'') code"
    by (metis append_eq_conv_conj takeWhile_dropWhile_id)
  ultimately show ?thesis
    by (simp add: getFirstCodeLine_def substring_def Let_def min_def max_def)
next
  case False
  then have io: "indexOf code '';'' 0 = -1"
    by (simp add: indexOf_def indexOfAux_char)
  have tw: "takeWhile (\<lambda>c. c \<noteq> CHR '';'') code = code"
    using False by (auto simp: takeWhile_eq_all_conv)
  show ?thesis
    unfolding getFirstCodeLine_def io tw by simp
qed

text \<open>
  Claim C9. Without a given old content the writer reads the file and takes a failed read
  for the empty text. It calls \<^verbatim>\<open>writeFileSync\<close> exactly when the comparison is unequal:
  of the trimmed contents for the aggregator, of the trimmed text before the first
  semicolon (the whole text when there is none) for a consumer file. On equality the
  state, and so the file, is left as it is.
\<close>

theorem writer_writes_exactly_on_difference:
  "setFileContentIfDifferent file new None s =
     setFileContentIfDifferent file new
       (Some (case readFileSync (fs s) file of Inl e \<Rightarrow> [] | Inr content \<Rightarrow> content)) s \<and>
   setFileContentIfFirstCodeLineIsDifferent file new None s =
     setFileContentIfFirstCodeLineIsDifferent file new
       (Some (case readFileSync (fs s) file of Inl e \<Rightarrow> [] | Inr content \<Rightarrow> content)) s \<and>
   setFileContentIfDifferent file new (Some old) s =
     (if trim old = trim new then Normal s else writeFileSync file new s) \<and>
   setFileContentIfFirstCodeLineIsDifferent file new (Some old) s =
     (if trim (takeWhile (\<lambda>c. c \<noteq> CHR '';'') old) = trim (takeWhile (\<lambda>c. c \<noteq> CHR '';'') new)
      then Normal s else writeFileSync file new s) \<and>
   writes (finalState (writeFileSync file new s)) = writes s @ [(file, new)]"
proof -
  have "writes (finalState (writeFileSync file new s)) = writes s @ [(file, new)]"
    by (simp add: writeFileSync_def Let_def split: sum.splits)
  then show ?thesis
    by (simp add: setFileContentIfDifferent_def setFileContentIfFirstCodeLineIsDifferent_def
        getFirstCodeLine_takeWhile)
qed

section \<open>The aggregator builder\<close>

text \<open>
  Claim C10. With the output disabled the two extension tests are never made: whatever
  its extension, a file goes to the custom handler when there is one (and the filter
  accepts the file), and is left out when there is none.
\<close>

theorem import_with_output_disabled:
  "importFile opts None lines file index array s =
     (case opt_fileExtensionsCustom opts of
        None \<Rightarrow> Some (Normal s)
      | Some handler \<Rightarrow>
          Some (Normal (if filter_fn opts file then importCustom (handler file index array) s
                        else s)))"
  by (simp add: importFile_def split: option.splits)

lemma import_with_output_disabled_example:
  "isFileOfType ''./src/a.js'' (opt_fileExtensionsJs exampleOptions) \<and>
   importFile (exampleOptions\<lparr>opt_fileExtensionsCustom := Some exampleHandler\<rparr>) None []
       ''./src/a.js'' 0 [''./src/a.js''] (initialState exampleTree) =
     Some (Normal ((initialState exampleTree)
       \<lparr>importsCode := ''import {a} from './src/a.js';'' @ [CHR 0x27, CHR 0x0A],
        exportedFields := [''a'']\<rparr>))"
  by code_simp

text \<open>
  Claim C7. When the parser throws on the (purged) text of a js-like file, the error is
  logged and the identifier list is empty; \<^verbatim>\<open>importFile\<close> completes normally, with an
  import statement without identifiers and the export set as it was.
\<close>

theorem parse_failure_is_contained:
  assumes "isFileOfType file (opt_fileExtensionsJs opts)"
    and "filter_fn opts file"
    and "readFileSync (fs s) file = Inr content"
    and "purgeImportedFieldsCode lines content = Some source"
    and "opt_babel opts source = Inl e"
  shows "getExportedFields opts lines content False = Some ([], [ConsoleError e]) \<and>
         getExportedFields opts lines source True = Some ([], [ConsoleError e]) \<and>
         importFile opts (Some outName) lines file index array s =
           Some (Normal (s\<lparr>console := console s @ [ConsoleError e],
                           importsCode := importsCode s @ ''import {} from '' @ [CHR 0x27] @ file
                                            @ [CHR 0x27] @ '';'' @ [CHR 0x0A]\<rparr>))"
  using assms
  by (simp add: getExportedFields_def importFile_def addExportedFields_def)

theorem parse_failure_is_contained_witness:
  "importFile exampleOptions (Some ''imports.js'') defaultLines ''./src/broken.js'' 1
       [''./src/a.js'', ''./src/broken.js''] (initialState exampleTree) =
     Some (Normal ((initialState exampleTree)
       \<lparr>console := [ConsoleError ''SyntaxError: Unexpected token''],
        importsCode := ''import {} from './src/broken.js';'' @ [CHR 0x0A]\<rparr>))"
proof -
  have a: "isFileOfType ''./src/broken.js'' (opt_fileExtensionsJs exampleOptions)" by code_simp
  have b: "filter_fn exampleOptions ''./src/broken.js''" by code_simp
  have c: "readFileSync (fs (initialState exampleTree)) ''./src/broken.js''
             = Inr ''export const = ;''" by code_simp
  have d: "purgeImportedFieldsCode defaultLines ''export const = ;''
             = Some ''export const = ;''" by code_simp
  have e: "opt_babel exampleOptions ''export const = ;'' = Inl ''SyntaxError: Unexpected token''"
    by code_simp
  from parse_failure_is_contained[OF a b c d e, of "''imports.js''" 1
      "[''./src/a.js'', ''./src/broken.js'']"]
  show ?thesis by (simp add: initialState_def)
qed

section \<open>The declaration extractor\<close>

lemma pattern_name_Some: "Some n = pattern_name p \<longleftrightarrow> p = Identifier n"
  by (cases p) auto

lemma exported_name_Some: "Some n = exported_name e \<longleftrightarrow> e = ExportedIdentifier n"
  by (cases e) auto

lemma member_value_name_Some:
  "Some n = member_value_name m \<longleftrightarrow> (\<exists>key. m = ObjectProperty key (Identifier n))"
  by (cases m) (auto simp: pattern_name_Some)

lemma element_name_Some:
  "Some n = (case elem of None \<Rightarrow> None | Some e \<Rightarrow> pattern_name e) \<longleftrightarrow> elem = Some (Identifier n)"
  by (cases elem) (auto simp: pattern_name_Some)

lemma specifier_names:
  "Some n \<in> set (map exported_name specs) \<longleftrightarrow> ExportedIdentifier n \<in> set specs"
  by (auto simp: image_iff exported_name_Some)

lemma declaration_names:
  "Some n \<in> set (map pattern_name ids) \<longleftrightarrow> Identifier n \<in> set ids"
  by (auto simp: image_iff pattern_name_Some)

lemma array_names:
  "Some n \<in> set (case pattern_elements d of None \<Rightarrow> []
                 | Some elems \<Rightarrow> map (\<lambda>elem. case elem of None \<Rightarrow> None
                                              | Some e \<Rightarrow> pattern_name e) elems)
     \<longleftrightarrow> (\<exists>elems. d = ArrayPattern elems \<and> Some (Identifier n) \<in> set elems)"
  by (cases d) (auto simp: image_iff element_name_Some)

lemma object_names:
  "Some n \<in> set (case pattern_properties d of None \<Rightarrow> []
                 | Some props \<Rightarrow> map member_value_name props)
     \<longleftrightarrow> (\<exists>props key. d = ObjectPattern props \<and> ObjectProperty key (Identifier n) \<in> set props)"
  by (cases d) (auto simp: image_iff member_value_name_Some)

lemma exportNodeNames_Some:
  "Some n \<in> set (exportNodeNames (ExportNamedDeclaration specs decl)) \<longleftrightarrow>
     ExportedIdentifier n \<in> set specs \<or>
     (\<exists>ids target. decl = VariableDeclaration ids \<and> target \<in> set ids \<and>
        (target = Identifier n \<or>
         (\<exists>elems. target = ArrayPattern elems \<and> Some (Identifier n) \<in> set elems) \<or>
         (\<exists>props key. target = ObjectPattern props \<and>
                        ObjectProperty key (Identifier n) \<in> set props)))"
proof (cases decl)
  case (VariableDeclaration ids)
  have cm: "Some n \<in> set (concat (map f ids)) \<longleftrightarrow> (\<exists>d \<in> set ids. Some n \<in> set (f d))"
    for f :: "pattern \<Rightarrow> string option list"
    by auto
  show ?thesis
    unfolding VariableDeclaration
    by (simp only: exportNodeNames.simps Let_def declarations_of.simps option.case set_append
          Un_iff cm specifier_names declaration_names array_names object_names) blast
next
  case NoDeclaration
  then show ?thesis using specifier_names[of n specs] by (simp add: Let_def)
next
  case (FunctionDeclaration f)
  then show ?thesis using specifier_names[of n specs] by (simp add: Let_def)
next
  case (ClassDeclaration c)
  then show ?thesis using specifier_names[of n specs] by (simp add: Let_def)
qed

text \<open>The extractor returns the identifiers declared in the four forms, and no other.\<close>

lemma extractor_returns_declared_identifiers:
  "set (exportedNames body) = spec_declaredIdentifiers body"
proof -
  have "n \<in> set (exportedNames body) \<longleftrightarrow> n \<in> spec_declaredIdentifiers body" for n
  proof -
    have "n \<in> set (exportedNames body) \<longleftrightarrow>
            (\<exists>st \<in> set body. isExportNamedDeclaration st \<and> Some n \<in> set (exportNodeNames st))"
      unfolding exportedNames_def by (force simp: image_iff simp del: exportNodeNames.simps)
    also have "\<dots> \<longleftrightarrow> (\<exists>specs decl. ExportNamedDeclaration specs decl \<in> set body \<and>
                   Some n \<in> set (exportNodeNames (ExportNamedDeclaration specs decl)))"
    proof
      assume "\<exists>st \<in> set body. isExportNamedDeclaration st \<and> Some n \<in> set (exportNodeNames st)"
      then obtain st where st: "st \<in> set body" "isExportNamedDeclaration st"
          "Some n \<in> set (exportNodeNames st)" by blast
      from st(2) obtain specs decl where "st = ExportNamedDeclaration specs decl"
        by (cases st) auto
      with st show "\<exists>specs decl. ExportNamedDeclaration specs decl \<in> set body \<and>
                   Some n \<in> set (exportNodeNames (ExportNamedDeclaration specs decl))"
        by blast
    next
      assume "\<exists>specs decl. ExportNamedDeclaration specs decl \<in> set body \<and>
                   Some n \<in> set (exportNodeNames (ExportNamedDeclaration specs decl))"
      then obtain specs decl where h: "ExportNamedDeclaration specs decl \<in> set body"
          "Some n \<in> set (exportNodeNames (ExportNamedDeclaration specs decl))" by blast
      have "isExportNamedDeclaration (ExportNamedDeclaration specs decl)" by simp
      with h show "\<exists>st \<in> set body. isExportNamedDeclaration st \<and> Some n \<in> set (exportNodeNames st)"
        by blast
    qed
    also have "\<dots> \<longleftrightarrow> n \<in> spec_declaredIdentifiers body"
      unfolding exportNodeNames_Some spec_declaredIdentifiers_def by simp
    finally show ?thesis .
  qed
  then show ?thesis by blast
qed

section \<open>The export set\<close>

lemma set_object_keys: "set (object_keys obj) = set obj"
  by (auto simp: object_keys_def)

lemma set_addExportedFields:
  "set (addExportedFields fieldNames obj) = set obj \<union> (set fieldNames - {''__proto__''})"
  unfolding addExportedFields_def
  by (induction fieldNames arbitrary: obj) (auto simp: obj_set_def)


text \<open>What a list of identifiers adds to the export set: each of them but
  \<^verbatim>\<open>__proto__\<close>.\<close>

lemma keys_after_addExportedFields:
  "set (object_keys (addExportedFields fieldNames obj)) =
     set (object_keys obj) \<union> (set fieldNames - {''__proto__''})"
  by (simp add: set_object_keys set_addExportedFields)

text \<open>
  Claim C6. The claim says the identifiers a file exports are its contribution to the
  aggregate export set. The extractor returns them (see
  \<open>extractor_returns_declared_identifiers\<close>), and the import statement of the module
  lists them; but the export set is a plain object, and the assignment
  \<^verbatim>\<open>exportedFields['__proto__'] = true\<close> creates no key. A module that exports \<^verbatim>\<open>__proto__\<close>
  and \<^verbatim>\<open>B\<close> adds \<^verbatim>\<open>B\<close> alone.
\<close>

theorem proto_export_is_lost:
  "getExportedFields exampleOptions defaultLines
       ''export const __proto__ = 1; export const B = 2;'' False
     = Some ([''__proto__'', ''B''], []) \<and>
   importFile exampleOptions (Some ''imports.js'') defaultLines ''./src/a.js'' 0
       [''./src/a.js'', ''./src/broken.js''] (initialState exampleTree) =
     Some (Normal ((initialState exampleTree)
       \<lparr>importsCode := ''import {__proto__, B} from './src/a.js';'' @ [CHR 0x0A],
        exportedFields := [''B'']\<rparr>)) \<and>
   aggregatorContent ((initialState exampleTree)
       \<lparr>importsCode := ''import {__proto__, B} from './src/a.js';'' @ [CHR 0x0A],
        exportedFields := [''B'']\<rparr>) =
     ''import {__proto__, B} from './src/a.js';'' @ [CHR 0x0A, CHR 0x0A] @ ''export {B};''
       @ [CHR 0x0A]"
  by code_simp

section \<open>The consumer rewriter\<close>






section \<open>The run\<close>

text \<open>
  Claim C1. The claim says a second run on the files the first run left writes nothing.
  The page below starts with an import line of the run with spaces inside the braces,
  and there is nothing to import. The first run rebuilds the line around the empty list
  and keeps the spaces; the rebuilt line no longer has the shape of the regular
  expression, so the second run builds the plain line, finds the first code line changed
  and writes the page again.
\<close>

theorem second_run_writes_again:
  "map_option (\<lambda>c. writes (finalState c)) (onPreInit spacedImportOptions spacedImportTree) =
     Some [(''./imports.js'', [CHR 0x0A] @ ''export {};'' @ [CHR 0x0A]),
           (''./pages/p.js'', ''import {  } from './../imports.js';'' @ [CHR 0x0A])] \<and>
   (case onPreInit spacedImportOptions spacedImportTree of
      None \<Rightarrow> None
    | Some c \<Rightarrow>
        map_option (\<lambda>c'. writes (finalState c'))
          (onPreInit spacedImportOptions (fs (finalState c)))) =
     Some [(''./pages/p.js'', ''import {} from './../imports.js';'' @ [CHR 0x0A])]"
  by code_simp

text \<open>The same happens when an import root holds the generated module: the second run
  finds the module among the files to import and writes it again, with a line that
  imports from itself.\<close>

lemma second_run_imports_generated_module:
  "(case onPreInit (exampleOptions\<lparr>opt_import := [''.''], opt_modify := []\<rparr>) (Dir []) of
      None \<Rightarrow> None
    | Some c \<Rightarrow>
        map_option (\<lambda>c'. writes (finalState c'))
          (onPreInit (exampleOptions\<lparr>opt_import := [''.''], opt_modify := []\<rparr>)
             (fs (finalState c)))) =
     Some [(''./imports.js'',
            ''import {} from './imports.js';'' @ [CHR 0x0A, CHR 0x0A] @ ''export {};''
              @ [CHR 0x0A])]"
  by code_simp

end
